theory Spec2Isabelle
  imports Complex_Main
begin

section \<open>Convex collision shapes of ReactPhysics3D: cone and sphere\<close>

text \<open>
  A shallow embedding of \<^verbatim>\<open>src/collision/shapes/ConeShape.h\<close> and
  \<^verbatim>\<open>src/collision/shapes/SphereShape.cpp\<close>. Each C++ member function
  \<^verbatim>\<open>Class::method\<close> is the HOL function \<open>Class_method\<close>, taking the object as its first
  argument; a constructor is \<open>Class_ctor\<close>. An output parameter written by a method is
  passed in and returned updated. A failed \<^verbatim>\<open>assert\<close> and a failed reference
  \<^verbatim>\<open>dynamic_cast\<close> are values of the type \<open>fault\<close>, returned on the left of a sum.

  The scalar type \<^verbatim>\<open>decimal\<close> is read as the real numbers: every operation is exact,
  and floating-point rounding is outside the model.
\<close>

subsection \<open>Scalars, vectors and matrices\<close>

type_synonym decimal = real

datatype fault = AssertionFailed | BadCast

text \<open>
  Modelled from the spec: the classes \<^verbatim>\<open>Vector3\<close> and \<^verbatim>\<open>Matrix3x3\<close> of
  \<^verbatim>\<open>mathematics/mathematics.h\<close>, which the shape classes use and which is not among the
  sources. A vector has the three public fields the shape code reads and writes; a
  matrix is three rows, filled row by row by \<^verbatim>\<open>setAllValues\<close>. The operations are
  the usual ones: Euclidean length, sum, difference, product with a scalar, and the unit
  vector as the quotient by the length. \<open>Vector3_le\<close> is the componentwise order; it
  belongs to no class and serves to state properties only.
\<close>

record Vector3 =
  x :: decimal
  y :: decimal
  z :: decimal

definition Vector3_ctor :: "decimal \<Rightarrow> decimal \<Rightarrow> decimal \<Rightarrow> Vector3" where
  "Vector3_ctor a b c = \<lparr>x = a, y = b, z = c\<rparr>"

definition Vector3_length :: "Vector3 \<Rightarrow> decimal" where
  "Vector3_length v = sqrt (x v * x v + y v * y v + z v * z v)"

definition Vector3_plus :: "Vector3 \<Rightarrow> Vector3 \<Rightarrow> Vector3" where
  "Vector3_plus u v = Vector3_ctor (x u + x v) (y u + y v) (z u + z v)"

definition Vector3_minus :: "Vector3 \<Rightarrow> Vector3 \<Rightarrow> Vector3" where
  "Vector3_minus u v = Vector3_ctor (x u - x v) (y u - y v) (z u - z v)"

definition Vector3_times :: "Vector3 \<Rightarrow> decimal \<Rightarrow> Vector3" where
  "Vector3_times v k = Vector3_ctor (x v * k) (y v * k) (z v * k)"

definition Vector3_getUnit :: "Vector3 \<Rightarrow> Vector3" where
  "Vector3_getUnit v =
     (let lengthVector = Vector3_length v
      in Vector3_ctor (x v / lengthVector) (y v / lengthVector) (z v / lengthVector))"

definition Vector3_le :: "Vector3 \<Rightarrow> Vector3 \<Rightarrow> bool" where
  "Vector3_le u v = (x u \<le> x v \<and> y u \<le> y v \<and> z u \<le> z v)"

record Matrix3x3 =
  row0 :: Vector3
  row1 :: Vector3
  row2 :: Vector3

definition Matrix3x3_setAllValues ::
  "Matrix3x3 \<Rightarrow> decimal \<Rightarrow> decimal \<Rightarrow> decimal \<Rightarrow> decimal \<Rightarrow> decimal \<Rightarrow> decimal \<Rightarrow>
   decimal \<Rightarrow> decimal \<Rightarrow> decimal \<Rightarrow> Matrix3x3" where
  "Matrix3x3_setAllValues this a1 a2 a3 b1 b2 b3 c1 c2 c3 =
     this\<lparr>row0 := Vector3_ctor a1 a2 a3,
          row1 := Vector3_ctor b1 b2 b3,
          row2 := Vector3_ctor c1 c2 c3\<rparr>"


subsection \<open>The shape classes\<close>

text \<open>
  Modelled from the spec: the base class \<^verbatim>\<open>CollisionShape\<close> of \<^verbatim>\<open>CollisionShape.h\<close>
  (not among the sources): its state is the shape-kind tag and the margin, its
  constructor stores the two, \<^verbatim>\<open>getMargin\<close> reads the margin, and the default margin
  \<^verbatim>\<open>OBJECT_MARGIN\<close> of \<^verbatim>\<open>configuration.h\<close> is 0.04.
\<close>

datatype CollisionShapeType = BOX | SPHERE | CONE | CYLINDER | CAPSULE | CONVEX_MESH

record CollisionShape =
  mType :: CollisionShapeType
  mMargin :: decimal

definition OBJECT_MARGIN :: decimal where
  "OBJECT_MARGIN = 0.04"

definition CollisionShape_getMargin :: "'a CollisionShape_scheme \<Rightarrow> decimal" where
  "CollisionShape_getMargin this = mMargin this"

text \<open>
  The two concrete classes extend the base class. Both name their radius field
  \<^verbatim>\<open>mRadius\<close>; the sphere's is \<open>mSphereRadius\<close> here, since record fields share one
  name space.
\<close>

record SphereShape = CollisionShape +
  mSphereRadius :: decimal

record ConeShape = CollisionShape +
  mRadius :: decimal
  mHalfHeight :: decimal
  mSinTheta :: decimal

text \<open>
  A reference \<^verbatim>\<open>const CollisionShape&\<close> denotes an object of one of the concrete
  classes; its dynamic type is the constructor of this datatype.
\<close>

datatype AnyCollisionShape = OfSphereShape SphereShape | OfConeShape ConeShape

subsection \<open>\<^verbatim>\<open>SphereShape.cpp\<close>\<close>

text \<open>
  \<^verbatim>\<open>SphereShape::SphereShape(decimal radius) : CollisionShape(SPHERE, radius), mRadius(radius)\<close>
  with the body \<^verbatim>\<open>assert(radius > decimal(0.0))\<close>. The radius is the only parameter.
\<close>

definition SphereShape_ctor :: "decimal \<Rightarrow> fault + SphereShape" where
  "SphereShape_ctor radius =
     (let this = \<lparr>mType = SPHERE, mMargin = radius, mSphereRadius = radius\<rparr>
      in if radius > 0 then Inr this else Inl AssertionFailed)"

subsection \<open>\<^verbatim>\<open>ConeShape.h\<close>: the inline members of \<^verbatim>\<open>ConeShape\<close>\<close>

definition ConeShape_getRadius :: "ConeShape \<Rightarrow> decimal" where
  "ConeShape_getRadius this = mRadius this"

definition ConeShape_getHeight :: "ConeShape \<Rightarrow> decimal" where
  "ConeShape_getHeight this = 2.0 * mHalfHeight this"

text \<open>
  \<^verbatim>\<open>getLocalBounds(Vector3& min, Vector3& max)\<close> assigns the six fields one after the
  other; \<open>min0\<close> and \<open>max0\<close> are the vectors the caller passes in.
\<close>

definition ConeShape_getLocalBounds :: "ConeShape \<Rightarrow> Vector3 \<Rightarrow> Vector3 \<Rightarrow> Vector3 \<times> Vector3" where
  "ConeShape_getLocalBounds this min0 max0 =
     (let max1 = max0\<lparr>x := mRadius this + mMargin this\<rparr>;
          max2 = max1\<lparr>y := mHalfHeight this + mMargin this\<rparr>;
          max3 = max2\<lparr>z := x max2\<rparr>;
          min1 = min0\<lparr>x := - x max3\<rparr>;
          min2 = min1\<lparr>y := - y max3\<rparr>;
          min3 = min2\<lparr>z := x min2\<rparr>
      in (min3, max3))"

definition ConeShape_computeLocalInertiaTensor :: "ConeShape \<Rightarrow> Matrix3x3 \<Rightarrow> decimal \<Rightarrow> Matrix3x3" where
  "ConeShape_computeLocalInertiaTensor this tensor mass =
     (let rSquare = mRadius this * mRadius this;
          diagXZ = 0.15 * mass * (rSquare + mHalfHeight this)
      in Matrix3x3_setAllValues tensor diagXZ 0.0 0.0
                                       0.0 (0.3 * mass * rSquare)
                                       0.0 0.0 0.0 diagXZ)"

text \<open>
  \<^verbatim>\<open>dynamic_cast<const ConeShape&>\<close> on a reference throws \<^verbatim>\<open>std::bad_cast\<close> when the
  object is not a \<^verbatim>\<open>ConeShape\<close>.
\<close>

definition dynamic_cast_ConeShape :: "AnyCollisionShape \<Rightarrow> fault + ConeShape" where
  "dynamic_cast_ConeShape otherCollisionShape =
     (case otherCollisionShape of
        OfConeShape c \<Rightarrow> Inr c
      | OfSphereShape s \<Rightarrow> Inl BadCast)"

definition ConeShape_isEqualTo :: "ConeShape \<Rightarrow> AnyCollisionShape \<Rightarrow> fault + bool" where
  "ConeShape_isEqualTo this otherCollisionShape =
     (case dynamic_cast_ConeShape otherCollisionShape of
        Inl e \<Rightarrow> Inl e
      | Inr otherShape \<Rightarrow>
          Inr (mRadius this = mRadius otherShape \<and> mHalfHeight this = mHalfHeight otherShape))"

text \<open>
  Modelled from the spec: the constructor of \<^verbatim>\<open>ConeShape\<close> and its two support-point
  members, which \<^verbatim>\<open>ConeShape.h\<close> declares and \<^verbatim>\<open>ConeShape.cpp\<close> (not among the
  sources) defines. The constructor takes the radius, the full height and the margin
  (by default \<^verbatim>\<open>OBJECT_MARGIN\<close>), fails on a non-positive radius or height, stores
  half the height and caches \<open>sin\<theta> = radius / sqrt (radius\<^sup>2 + height\<^sup>2)\<close>. The support
  point without margin is the apex when the direction has length zero or
  \<open>dy / |d| > sin\<theta>\<close>; otherwise the point of the base rim under the planar projection
  \<open>(dx, dz)\<close> when that projection is non-zero; otherwise the centre of the base. The
  support point with margin adds \<open>margin * normalize d\<close>, and nothing for the zero
  direction.
\<close>

definition ConeShape_ctor :: "decimal \<Rightarrow> decimal \<Rightarrow> decimal \<Rightarrow> fault + ConeShape" where
  "ConeShape_ctor radius height margin =
     (if radius > 0 \<and> height > 0
      then Inr \<lparr>mType = CONE, mMargin = margin, mRadius = radius,
                mHalfHeight = height * 0.5,
                mSinTheta = radius / sqrt (radius * radius + height * height)\<rparr>
      else Inl AssertionFailed)"

definition ConeShape_getLocalSupportPointWithoutMargin :: "ConeShape \<Rightarrow> Vector3 \<Rightarrow> Vector3" where
  "ConeShape_getLocalSupportPointWithoutMargin this direction =
     (let lengthV = Vector3_length direction
      in if lengthV = 0 \<or> y direction / lengthV > mSinTheta this
         then Vector3_ctor 0 (mHalfHeight this) 0
         else let projectedLength = sqrt (x direction * x direction + z direction * z direction)
              in if (x direction, z direction) \<noteq> (0, 0)
                 then Vector3_ctor (mRadius this * x direction / projectedLength)
                                   (- mHalfHeight this)
                                   (mRadius this * z direction / projectedLength)
                 else Vector3_ctor 0 (- mHalfHeight this) 0)"

definition ConeShape_getLocalSupportPointWithMargin :: "ConeShape \<Rightarrow> Vector3 \<Rightarrow> Vector3" where
  "ConeShape_getLocalSupportPointWithMargin this direction =
     (let supportPoint = ConeShape_getLocalSupportPointWithoutMargin this direction;
          unitVec = (if Vector3_length direction = 0 then Vector3_ctor 0 0 0
                     else Vector3_getUnit direction)
      in Vector3_plus supportPoint (Vector3_times unitVec (mMargin this)))"

subsection \<open>\<^verbatim>\<open>ConeShape.h\<close>: the proxy shape of a cone\<close>

text \<open>
  Modelled from the spec: the base class \<^verbatim>\<open>ProxyShape\<close> (not among the sources) holds
  the owning body, the transform and the mass; the types of bodies and transforms are
  parameters. \<^verbatim>\<open>ProxyConeShape\<close> adds the pointer \<^verbatim>\<open>mCollisionShape\<close> to the cone, which
  is never modified through it, so the proxy holds the cone's value. Its constructor is
  in \<^verbatim>\<open>ConeShape.cpp\<close>; it is modelled as the constructor of \<^verbatim>\<open>ProxySphereShape\<close> in
  \<^verbatim>\<open>SphereShape.cpp\<close> is written:
  \<^verbatim>\<open>ProxyShape(body, transform, mass), mCollisionShape(shape)\<close>.
\<close>

record ('body, 'transform) ProxyShape =
  mBody :: 'body
  mLocalToBodyTransform :: 'transform
  mMass :: decimal

record ('body, 'transform) ProxyConeShape = "('body, 'transform) ProxyShape" +
  mCollisionShape :: ConeShape

definition ProxyConeShape_ctor ::
  "ConeShape \<Rightarrow> 'body \<Rightarrow> 'transform \<Rightarrow> decimal \<Rightarrow> ('body, 'transform) ProxyConeShape" where
  "ProxyConeShape_ctor shape body transform mass =
     \<lparr>mBody = body, mLocalToBodyTransform = transform, mMass = mass, mCollisionShape = shape\<rparr>"

text \<open>
  \<^verbatim>\<open>createProxyShape\<close> constructs the proxy in memory taken from the allocator; the
  allocator is not modelled.
\<close>

definition ConeShape_createProxyShape ::
  "ConeShape \<Rightarrow> 'body \<Rightarrow> 'transform \<Rightarrow> decimal \<Rightarrow> ('body, 'transform) ProxyConeShape" where
  "ConeShape_createProxyShape this body transform mass = ProxyConeShape_ctor this body transform mass"

definition ProxyConeShape_getCollisionShape :: "('body, 'transform) ProxyConeShape \<Rightarrow> AnyCollisionShape" where
  "ProxyConeShape_getCollisionShape this = OfConeShape (mCollisionShape this)"

definition ProxyConeShape_getLocalSupportPointWithMargin ::
  "('body, 'transform) ProxyConeShape \<Rightarrow> Vector3 \<Rightarrow> Vector3" where
  "ProxyConeShape_getLocalSupportPointWithMargin this direction =
     ConeShape_getLocalSupportPointWithMargin (mCollisionShape this) direction"

definition ProxyConeShape_getLocalSupportPointWithoutMargin ::
  "('body, 'transform) ProxyConeShape \<Rightarrow> Vector3 \<Rightarrow> Vector3" where
  "ProxyConeShape_getLocalSupportPointWithoutMargin this direction =
     ConeShape_getLocalSupportPointWithoutMargin (mCollisionShape this) direction"

definition ProxyConeShape_getMargin :: "('body, 'transform) ProxyConeShape \<Rightarrow> decimal" where
  "ProxyConeShape_getMargin this = CollisionShape_getMargin (mCollisionShape this)"

subsection \<open>Sample objects\<close>

definition cone_3_5 :: ConeShape where
  "cone_3_5 = \<lparr>mType = CONE, mMargin = 0.04, mRadius = 3, mHalfHeight = 2.5,
               mSinTheta = 3 / sqrt 34\<rparr>"

definition sphere_2 :: SphereShape where
  "sphere_2 = \<lparr>mType = SPHERE, mMargin = 2, mSphereRadius = 2\<rparr>"

definition zero_vector :: Vector3 where
  "zero_vector = Vector3_ctor 0 0 0"

definition cone_3_4 :: ConeShape where
  "cone_3_4 = \<lparr>mType = CONE, mMargin = 0.04, mRadius = 3, mHalfHeight = 2,
               mSinTheta = 3 / 5\<rparr>"

definition zero_matrix :: Matrix3x3 where
  "zero_matrix = \<lparr>row0 = zero_vector, row1 = zero_vector, row2 = zero_vector\<rparr>"


subsection \<open>Auxiliary facts\<close>

lemma ConeShape_ctor_fields:
  assumes "ConeShape_ctor r height m = Inr c"
  shows "0 < r" and "0 < height" and "mRadius c = r" and "mHalfHeight c = height / 2"
    and "mMargin c = m" and "mSinTheta c = r / sqrt (r * r + height * height)"
  using assms by (auto simp add: ConeShape_ctor_def split: if_splits)

lemma ConeShape_ctor_sinTheta:
  assumes "ConeShape_ctor r height m = Inr c"
  shows "0 < mSinTheta c" and "mSinTheta c < 1"
proof -
  note f = ConeShape_ctor_fields [OF assms]
  have pos: "0 < r * r + height * height"
    using f(1) f(2) by (simp add: add_pos_pos)
  then have spos: "0 < sqrt (r * r + height * height)" by simp
  show "0 < mSinTheta c" using f(1) spos by (simp add: f(6))
  have "r\<^sup>2 < r * r + height * height"
    using f(2) by (simp add: power2_eq_square)
  then have "r < sqrt (r * r + height * height)"
    by (rule real_less_rsqrt)
  then show "mSinTheta c < 1" using spos by (simp add: f(6))
qed

lemma ConeShape_ctor_getters:
  assumes "ConeShape_ctor r height m = Inr c"
  shows "ConeShape_getRadius c = r" and "ConeShape_getHeight c = height"
  using ConeShape_ctor_fields [OF assms]
  by (simp_all add: ConeShape_getRadius_def ConeShape_getHeight_def)

lemma cone_3_5_constructed: "ConeShape_ctor 3 5 OBJECT_MARGIN = Inr cone_3_5"
  by (simp add: ConeShape_ctor_def OBJECT_MARGIN_def cone_3_5_def)

lemma cone_3_4_constructed: "ConeShape_ctor 3 4 OBJECT_MARGIN = Inr cone_3_4"
  by (simp add: ConeShape_ctor_def OBJECT_MARGIN_def cone_3_4_def)

lemma sphere_2_constructed: "SphereShape_ctor 2 = Inr sphere_2"
  by (simp add: SphereShape_ctor_def sphere_2_def)

lemma ConeShape_computeLocalInertiaTensor_entries:
  "ConeShape_computeLocalInertiaTensor c tensor mass =
     \<lparr>row0 = \<lparr>x = 0.15 * mass * (mRadius c * mRadius c + mHalfHeight c), y = 0, z = 0\<rparr>,
      row1 = \<lparr>x = 0, y = 0.3 * mass * (mRadius c * mRadius c), z = 0\<rparr>,
      row2 = \<lparr>x = 0, y = 0, z = 0.15 * mass * (mRadius c * mRadius c + mHalfHeight c)\<rparr>\<rparr>"
  by (simp add: ConeShape_computeLocalInertiaTensor_def Let_def Matrix3x3_setAllValues_def
      Vector3_ctor_def)

section \<open>Properties\<close>

subsection \<open>Local bounds\<close>

text \<open>
  C5. For a cone of radius \<open>r\<close>, half height \<open>h\<close> and margin \<open>m\<close>, \<^verbatim>\<open>getLocalBounds\<close>
  writes \<open>max = (r + m, h + m, r + m)\<close> and \<open>min = - max\<close>, whatever the two vectors held
  before; so \<open>min.x = - max.x\<close> and \<open>min.z = - max.z\<close>, and the extent \<open>max - min\<close> of
  the box grows (in every coordinate) when the margin grows and the geometry is kept.
\<close>

theorem ConeShape_getLocalBounds_spec:
  "ConeShape_getLocalBounds c min0 max0 =
     (\<lparr>x = - (mRadius c + mMargin c), y = - (mHalfHeight c + mMargin c),
       z = - (mRadius c + mMargin c)\<rparr>,
      \<lparr>x = mRadius c + mMargin c, y = mHalfHeight c + mMargin c,
       z = mRadius c + mMargin c\<rparr>)
   \<and> x (fst (ConeShape_getLocalBounds c min0 max0)) = - x (snd (ConeShape_getLocalBounds c min0 max0))
   \<and> z (fst (ConeShape_getLocalBounds c min0 max0)) = - z (snd (ConeShape_getLocalBounds c min0 max0))
   \<and> (m \<le> m' \<longrightarrow>
        Vector3_le
          (Vector3_minus (snd (ConeShape_getLocalBounds (c\<lparr>mMargin := m\<rparr>) min0 max0))
                         (fst (ConeShape_getLocalBounds (c\<lparr>mMargin := m\<rparr>) min0 max0)))
          (Vector3_minus (snd (ConeShape_getLocalBounds (c\<lparr>mMargin := m'\<rparr>) min0 max0))
                         (fst (ConeShape_getLocalBounds (c\<lparr>mMargin := m'\<rparr>) min0 max0))))"
  by (simp add: ConeShape_getLocalBounds_def Let_def Vector3_le_def Vector3_minus_def
      Vector3_ctor_def)

theorem ConeShape_getLocalBounds_spec_witness:
  "(0.04 :: decimal) \<le> 0.05
   \<and> snd (ConeShape_getLocalBounds cone_3_5 zero_vector zero_vector)
       = \<lparr>x = 3.04, y = 2.54, z = 3.04\<rparr>
   \<and> fst (ConeShape_getLocalBounds cone_3_5 zero_vector zero_vector)
       = \<lparr>x = - 3.04, y = - 2.54, z = - 3.04\<rparr>
   \<and> Vector3_le
        (Vector3_minus (snd (ConeShape_getLocalBounds (cone_3_5\<lparr>mMargin := 0.04\<rparr>) zero_vector zero_vector))
                       (fst (ConeShape_getLocalBounds (cone_3_5\<lparr>mMargin := 0.04\<rparr>) zero_vector zero_vector)))
        (Vector3_minus (snd (ConeShape_getLocalBounds (cone_3_5\<lparr>mMargin := 0.05\<rparr>) zero_vector zero_vector))
                       (fst (ConeShape_getLocalBounds (cone_3_5\<lparr>mMargin := 0.05\<rparr>) zero_vector zero_vector)))"
  using ConeShape_getLocalBounds_spec [of cone_3_5 zero_vector zero_vector "0.04" "0.05"]
  by (simp add: cone_3_5_def ConeShape_getLocalBounds_def Let_def Vector3_le_def
      Vector3_minus_def Vector3_ctor_def zero_vector_def)

subsection \<open>Inertia tensor\<close>

text \<open>
  C2. The claim gives the x and z diagonal entries of the cone's inertia tensor as
  \<open>0.15 * m * (r\<^sup>2 + h\<^sup>2)\<close> and the y entry as \<open>0.3 * m * r\<^sup>2\<close>. For the cone of radius 3
  and half height 2.5 and the mass 10, \<^verbatim>\<open>computeLocalInertiaTensor\<close> writes 17.25 on the
  x and z diagonal, the value of \<open>0.15 * m * (r\<^sup>2 + h)\<close>, where the claimed formula gives
  22.875; the y entry is as claimed.
\<close>

theorem ConeShape_computeLocalInertiaTensor_at_cone_3_5:
  "x (row0 (ConeShape_computeLocalInertiaTensor cone_3_5 zero_matrix 10)) = 17.25
   \<and> z (row2 (ConeShape_computeLocalInertiaTensor cone_3_5 zero_matrix 10)) = 17.25
   \<and> y (row1 (ConeShape_computeLocalInertiaTensor cone_3_5 zero_matrix 10))
       = 0.3 * 10 * (mRadius cone_3_5)\<^sup>2
   \<and> 0.15 * 10 * ((mRadius cone_3_5)\<^sup>2 + (mHalfHeight cone_3_5)\<^sup>2) = 22.875"
  by (simp add: ConeShape_computeLocalInertiaTensor_entries cone_3_5_def power2_eq_square)


subsection \<open>Equality of shapes\<close>

text \<open>
  C6. \<^verbatim>\<open>isEqualTo\<close> on two cones returns true exactly when their radii and their half
  heights are equal; the margins of the two cones do not enter; the comparison is
  reflexive and symmetric.
\<close>

theorem ConeShape_isEqualTo_cones:
  "ConeShape_isEqualTo c1 (OfConeShape c2)
     = Inr (mRadius c1 = mRadius c2 \<and> mHalfHeight c1 = mHalfHeight c2)
   \<and> ConeShape_isEqualTo (c1\<lparr>mMargin := m1\<rparr>) (OfConeShape (c2\<lparr>mMargin := m2\<rparr>))
     = ConeShape_isEqualTo c1 (OfConeShape c2)
   \<and> ConeShape_isEqualTo c1 (OfConeShape c1) = Inr True
   \<and> ConeShape_isEqualTo c1 (OfConeShape c2) = ConeShape_isEqualTo c2 (OfConeShape c1)"
  by (auto simp add: ConeShape_isEqualTo_def dynamic_cast_ConeShape_def)

text \<open>
  C3, as the code has it. \<^verbatim>\<open>ConeShape::isEqualTo\<close> applied to a shape that is not a cone
  does not return false: the reference \<^verbatim>\<open>dynamic_cast\<close> throws \<^verbatim>\<open>std::bad_cast\<close>. It
  returns a boolean, without throwing, exactly when the other shape is a cone; the
  comparison of kinds is left to the caller.
\<close>

theorem ConeShape_isEqualTo_kind:
  "ConeShape_isEqualTo c (OfSphereShape s) = Inl BadCast
   \<and> (\<exists>b. ConeShape_isEqualTo c (OfConeShape c') = Inr b)
   \<and> (ConeShape_isEqualTo c other = Inl BadCast) = (\<exists>s'. other = OfSphereShape s')
   \<and> (\<exists>b. ConeShape_isEqualTo c other = Inr b) = (\<exists>c''. other = OfConeShape c'')"
  by (cases other) (simp_all add: ConeShape_isEqualTo_def dynamic_cast_ConeShape_def)

text \<open>
  C3 as stated fails: comparing the cone of radius 3 and height 5 with the sphere of
  radius 2 does not return false.
\<close>

theorem ConeShape_isEqualTo_sphere_counterexample:
  "ConeShape_isEqualTo cone_3_5 (OfSphereShape sphere_2) \<noteq> Inr False"
  by (simp add: ConeShape_isEqualTo_def dynamic_cast_ConeShape_def)

subsection \<open>Construction of a sphere\<close>

text \<open>
  C8. Constructing a sphere with a radius \<open>\<le> 0\<close> fails the assertion and yields no
  shape; with a radius \<open>> 0\<close> the construction succeeds and the shape stores that radius.
\<close>

theorem SphereShape_ctor_precondition:
  "(radius \<le> 0 \<longrightarrow> SphereShape_ctor radius = Inl AssertionFailed)
   \<and> (radius > 0 \<longrightarrow> (\<exists>s. SphereShape_ctor radius = Inr s \<and> mSphereRadius s = radius))"
  by (simp add: SphereShape_ctor_def)

theorem SphereShape_ctor_precondition_witness:
  "(0::decimal) \<le> 0 \<and> SphereShape_ctor 0 = Inl AssertionFailed
   \<and> (2::decimal) > 0 \<and> (\<exists>s. SphereShape_ctor 2 = Inr s \<and> mSphereRadius s = 2)"
  using SphereShape_ctor_precondition [of 0] SphereShape_ctor_precondition [of 2]
  by simp

text \<open>
  C10. A sphere constructed with radius \<open>r\<close> has the margin \<open>r\<close>: the constructor, whose
  only parameter is the radius, passes it to the base class as the margin. So the margin
  is not the default \<^verbatim>\<open>OBJECT_MARGIN\<close>, unless the radius happens to be that value.
\<close>

theorem SphereShape_ctor_margin_is_radius:
  "radius > 0 \<Longrightarrow>
     \<exists>s. SphereShape_ctor radius = Inr s \<and> mMargin s = radius
        \<and> CollisionShape_getMargin s = radius
        \<and> (radius \<noteq> OBJECT_MARGIN \<longrightarrow> CollisionShape_getMargin s \<noteq> OBJECT_MARGIN)"
  by (simp add: SphereShape_ctor_def CollisionShape_getMargin_def)

theorem SphereShape_ctor_margin_is_radius_witness:
  "(2::decimal) > 0 \<and> (2::decimal) \<noteq> OBJECT_MARGIN
   \<and> (\<exists>s. SphereShape_ctor 2 = Inr s \<and> mMargin s = 2 \<and> CollisionShape_getMargin s \<noteq> OBJECT_MARGIN)"
proof -
  have pos: "(2::decimal) > 0" by simp
  have ne: "(2::decimal) \<noteq> OBJECT_MARGIN" by (simp add: OBJECT_MARGIN_def)
  from SphereShape_ctor_margin_is_radius [OF pos] ne pos show ?thesis by auto
qed

subsection \<open>The proxy of a cone\<close>

text \<open>
  C9. The support points with and without margin and the margin returned by a
  \<^verbatim>\<open>ProxyConeShape\<close> are those of the cone it wraps, whatever its body, transform and
  mass; in particular for the proxy that \<^verbatim>\<open>createProxyShape\<close> makes for a cone.
\<close>

theorem ProxyConeShape_delegates:
  "ProxyConeShape_getLocalSupportPointWithMargin p d
     = ConeShape_getLocalSupportPointWithMargin (mCollisionShape p) d
   \<and> ProxyConeShape_getLocalSupportPointWithoutMargin p d
     = ConeShape_getLocalSupportPointWithoutMargin (mCollisionShape p) d
   \<and> ProxyConeShape_getMargin p = CollisionShape_getMargin (mCollisionShape p)
   \<and> ProxyConeShape_getLocalSupportPointWithMargin (ConeShape_createProxyShape s body transform mass) d
     = ConeShape_getLocalSupportPointWithMargin s d
   \<and> ProxyConeShape_getLocalSupportPointWithoutMargin (ConeShape_createProxyShape s body transform mass) d
     = ConeShape_getLocalSupportPointWithoutMargin s d
   \<and> ProxyConeShape_getMargin (ConeShape_createProxyShape s body transform mass)
     = CollisionShape_getMargin s"
  by (simp add: ProxyConeShape_getLocalSupportPointWithMargin_def
      ProxyConeShape_getLocalSupportPointWithoutMargin_def ProxyConeShape_getMargin_def
      ConeShape_createProxyShape_def ProxyConeShape_ctor_def)

subsection \<open>Support points\<close>

text \<open>
  C4. For a cone that the constructor accepts (so radius and half height are positive) and
  a direction \<open>d = (dx, dy, dz)\<close>, the support point without margin follows the three
  cases: the apex \<open>(0, h, 0)\<close> when \<open>|d| = 0\<close> or \<open>dy / |d| > sin\<theta>\<close>; otherwise the rim point
  \<open>(r * dx / |planar|, - h, r * dz / |planar|)\<close> when \<open>(dx, dz)\<close> is not zero; otherwise the
  centre of the base \<open>(0, - h, 0)\<close>. In particular the direction \<open>(0, 1, 0)\<close> gives the
  apex, \<open>(1, 0, 0)\<close> gives \<open>(r, - h, 0)\<close> and \<open>(0, - 1, 0)\<close> gives the centre of the base.
\<close>

theorem ConeShape_getLocalSupportPointWithoutMargin_cases:
  assumes "ConeShape_ctor r height m = Inr c"
  shows "0 < mRadius c \<and> 0 < mHalfHeight c
       \<and> (Vector3_length d = 0 \<or> y d / Vector3_length d > mSinTheta c \<longrightarrow>
            ConeShape_getLocalSupportPointWithoutMargin c d = \<lparr>x = 0, y = mHalfHeight c, z = 0\<rparr>)
       \<and> (\<not> (Vector3_length d = 0 \<or> y d / Vector3_length d > mSinTheta c)
            \<and> (x d \<noteq> 0 \<or> z d \<noteq> 0) \<longrightarrow>
            ConeShape_getLocalSupportPointWithoutMargin c d
              = \<lparr>x = mRadius c * x d / sqrt ((x d)\<^sup>2 + (z d)\<^sup>2), y = - mHalfHeight c,
                 z = mRadius c * z d / sqrt ((x d)\<^sup>2 + (z d)\<^sup>2)\<rparr>)
       \<and> (\<not> (Vector3_length d = 0 \<or> y d / Vector3_length d > mSinTheta c)
            \<and> x d = 0 \<and> z d = 0 \<longrightarrow>
            ConeShape_getLocalSupportPointWithoutMargin c d = \<lparr>x = 0, y = - mHalfHeight c, z = 0\<rparr>)
       \<and> ConeShape_getLocalSupportPointWithoutMargin c \<lparr>x = 0, y = 1, z = 0\<rparr>
            = \<lparr>x = 0, y = mHalfHeight c, z = 0\<rparr>
       \<and> ConeShape_getLocalSupportPointWithoutMargin c \<lparr>x = 1, y = 0, z = 0\<rparr>
            = \<lparr>x = mRadius c, y = - mHalfHeight c, z = 0\<rparr>
       \<and> ConeShape_getLocalSupportPointWithoutMargin c \<lparr>x = 0, y = - 1, z = 0\<rparr>
            = \<lparr>x = 0, y = - mHalfHeight c, z = 0\<rparr>"
proof -
  note f = ConeShape_ctor_fields [OF assms]
  note s = ConeShape_ctor_sinTheta [OF assms]
  have valid: "0 < mRadius c \<and> 0 < mHalfHeight c"
    using f(1) f(2) by (simp add: f(3) f(4))
  have apex: "ConeShape_getLocalSupportPointWithoutMargin c d = \<lparr>x = 0, y = mHalfHeight c, z = 0\<rparr>"
    if "Vector3_length d = 0 \<or> y d / Vector3_length d > mSinTheta c"
    using that
    by (auto simp add: ConeShape_getLocalSupportPointWithoutMargin_def Let_def Vector3_ctor_def)
  have rim: "ConeShape_getLocalSupportPointWithoutMargin c d
              = \<lparr>x = mRadius c * x d / sqrt ((x d)\<^sup>2 + (z d)\<^sup>2), y = - mHalfHeight c,
                 z = mRadius c * z d / sqrt ((x d)\<^sup>2 + (z d)\<^sup>2)\<rparr>"
    if "\<not> (Vector3_length d = 0 \<or> y d / Vector3_length d > mSinTheta c)"
      and "x d \<noteq> 0 \<or> z d \<noteq> 0"
    using that
    by (auto simp add: ConeShape_getLocalSupportPointWithoutMargin_def Let_def Vector3_ctor_def
        power2_eq_square)
  have base: "ConeShape_getLocalSupportPointWithoutMargin c d = \<lparr>x = 0, y = - mHalfHeight c, z = 0\<rparr>"
    if "\<not> (Vector3_length d = 0 \<or> y d / Vector3_length d > mSinTheta c)"
      and "x d = 0" and "z d = 0"
    using that
    by (simp add: ConeShape_getLocalSupportPointWithoutMargin_def Let_def Vector3_ctor_def)
  have up: "ConeShape_getLocalSupportPointWithoutMargin c \<lparr>x = 0, y = 1, z = 0\<rparr>
            = \<lparr>x = 0, y = mHalfHeight c, z = 0\<rparr>"
    using s(2)
    by (simp add: ConeShape_getLocalSupportPointWithoutMargin_def Let_def Vector3_ctor_def
        Vector3_length_def)
  have side: "ConeShape_getLocalSupportPointWithoutMargin c \<lparr>x = 1, y = 0, z = 0\<rparr>
            = \<lparr>x = mRadius c, y = - mHalfHeight c, z = 0\<rparr>"
    using s(1)
    by (simp add: ConeShape_getLocalSupportPointWithoutMargin_def Let_def Vector3_ctor_def
        Vector3_length_def)
  have down: "ConeShape_getLocalSupportPointWithoutMargin c \<lparr>x = 0, y = - 1, z = 0\<rparr>
            = \<lparr>x = 0, y = - mHalfHeight c, z = 0\<rparr>"
    using s(1)
    by (simp add: ConeShape_getLocalSupportPointWithoutMargin_def Let_def Vector3_ctor_def
        Vector3_length_def)
  from valid apex rim base up side down show ?thesis by blast
qed

theorem ConeShape_getLocalSupportPointWithoutMargin_cases_witness:
  "ConeShape_ctor 3 4 OBJECT_MARGIN = Inr cone_3_4
   \<and> y \<lparr>x = 3, y = 4, z = 0\<rparr> / Vector3_length \<lparr>x = 3, y = 4, z = 0\<rparr> > mSinTheta cone_3_4
   \<and> ConeShape_getLocalSupportPointWithoutMargin cone_3_4 \<lparr>x = 3, y = 4, z = 0\<rparr>
       = \<lparr>x = 0, y = 2, z = 0\<rparr>
   \<and> \<not> (Vector3_length \<lparr>x = 3, y = 0, z = 4\<rparr> = 0
         \<or> y \<lparr>x = 3, y = 0, z = 4\<rparr> / Vector3_length \<lparr>x = 3, y = 0, z = 4\<rparr> > mSinTheta cone_3_4)
   \<and> ConeShape_getLocalSupportPointWithoutMargin cone_3_4 \<lparr>x = 3, y = 0, z = 4\<rparr>
       = \<lparr>x = 9 / 5, y = - 2, z = 12 / 5\<rparr>
   \<and> \<not> (Vector3_length \<lparr>x = 0, y = - 1, z = 0\<rparr> = 0
         \<or> y \<lparr>x = 0, y = - 1, z = 0\<rparr> / Vector3_length \<lparr>x = 0, y = - 1, z = 0\<rparr> > mSinTheta cone_3_4)
   \<and> ConeShape_getLocalSupportPointWithoutMargin cone_3_4 \<lparr>x = 0, y = - 1, z = 0\<rparr>
       = \<lparr>x = 0, y = - 2, z = 0\<rparr>"
proof -
  note t = ConeShape_getLocalSupportPointWithoutMargin_cases [OF cone_3_4_constructed]
  have l1: "Vector3_length \<lparr>x = 3, y = 4, z = 0\<rparr> = 5"
    and l2: "Vector3_length \<lparr>x = 3, y = 0, z = 4\<rparr> = 5"
    and l3: "Vector3_length \<lparr>x = 0, y = - 1, z = 0\<rparr> = 1"
    by (simp_all add: Vector3_length_def)
  have f: "mSinTheta cone_3_4 = 3 / 5" "mRadius cone_3_4 = 3" "mHalfHeight cone_3_4 = 2"
    by (simp_all add: cone_3_4_def)
  from t [of "\<lparr>x = 3, y = 4, z = 0\<rparr>"]
  have a: "ConeShape_getLocalSupportPointWithoutMargin cone_3_4 \<lparr>x = 3, y = 4, z = 0\<rparr>
       = \<lparr>x = 0, y = 2, z = 0\<rparr>"
    by (simp add: l1 f)
  from t [of "\<lparr>x = 3, y = 0, z = 4\<rparr>"]
  have b: "ConeShape_getLocalSupportPointWithoutMargin cone_3_4 \<lparr>x = 3, y = 0, z = 4\<rparr>
       = \<lparr>x = 9 / 5, y = - 2, z = 12 / 5\<rparr>"
    by (simp add: l2 f)
  from t [of "\<lparr>x = 0, y = - 1, z = 0\<rparr>"]
  have c: "ConeShape_getLocalSupportPointWithoutMargin cone_3_4 \<lparr>x = 0, y = - 1, z = 0\<rparr>
       = \<lparr>x = 0, y = - 2, z = 0\<rparr>"
    by (simp add: l3 f)
  from a b c cone_3_4_constructed show ?thesis
    by (simp add: l1 l2 l3 f)
qed

end
